theory Spec2Isabelle
  imports Main
begin

section \<open>Python values used by the plugin\<close>

text \<open>
  A Python \<open>str\<close> is a sequence of Unicode code points, and \<open>len\<close> counts code
  points. A string is therefore a list of code points (natural numbers); \<open>lit\<close> turns
  an ASCII literal of the source into that form, and the emoji of the source's literals
  are written as their code points.
\<close>

type_synonym pystr = "nat list"

definition lit :: "string \<Rightarrow> pystr" where
  "lit s = map of_char s"

definition NL :: pystr where
  "NL = [10]"

definition cross_mark :: pystr where
  "cross_mark = [0x274C]"

definition bomb :: pystr where
  "bomb = [0x1F4A3]"

definition trophy :: pystr where
  "trophy = [0x1F3C6]"

definition bar_chart :: pystr where
  "bar_chart = [0x1F4CA]"

definition skull :: pystr where
  "skull = [0x2620, 0xFE0F]"

definition play_button :: pystr where
  "play_button = [0x25B6, 0xFE0F]"

text \<open>\<open>"{}".format(n)\<close> for an integer: its decimal digits, with a sign.\<close>

fun str_nat :: "nat \<Rightarrow> pystr" where
  "str_nat n = (if n < 10 then [48 + n] else str_nat (n div 10) @ [48 + n mod 10])"

definition str_int :: "int \<Rightarrow> pystr" where
  "str_int i = (if i < 0 then 45 # str_nat (nat (- i)) else str_nat (nat i))"

text \<open>
  \<open>str.isalnum()\<close>, \<open>str.isalpha()\<close> and \<open>str.isdigit()\<close> hold when the string
  has at least one character and every character is of the class. Which code points are
  alphabetic, digits or alphanumeric is Python's Unicode table, taken as a parameter;
  \<open>ascii\<close> is that table on the ASCII range.
\<close>

record unicode =
  isalpha_cp :: "nat \<Rightarrow> bool"
  isdigit_cp :: "nat \<Rightarrow> bool"
  isalnum_cp :: "nat \<Rightarrow> bool"

definition isalnum :: "unicode \<Rightarrow> pystr \<Rightarrow> bool" where
  "isalnum U s = (s \<noteq> [] \<and> list_all (isalnum_cp U) s)"

definition isalpha :: "unicode \<Rightarrow> pystr \<Rightarrow> bool" where
  "isalpha U s = (s \<noteq> [] \<and> list_all (isalpha_cp U) s)"

definition isdigit :: "unicode \<Rightarrow> pystr \<Rightarrow> bool" where
  "isdigit U s = (s \<noteq> [] \<and> list_all (isdigit_cp U) s)"

definition ascii_alpha :: "nat \<Rightarrow> bool" where
  "ascii_alpha c = ((65 \<le> c \<and> c \<le> 90) \<or> (97 \<le> c \<and> c \<le> 122))"

definition ascii_digit :: "nat \<Rightarrow> bool" where
  "ascii_digit c = (48 \<le> c \<and> c \<le> 57)"

definition ascii :: unicode where
  "ascii = \<lparr>isalpha_cp = ascii_alpha, isdigit_cp = ascii_digit,
             isalnum_cp = (\<lambda>c. ascii_alpha c \<or> ascii_digit c)\<rparr>"

text \<open>
  The exceptions the handlers can meet: \<open>ValueError\<close> (caught by the move filter),
  the \<open>AssertionError\<close> of \<open>_run_turn\<close>, and any other exception.
\<close>

datatype exn = ValueError | AssertionError | OtherError

section \<open>The storage collaborator\<close>

text \<open>
  Modelled from the spec: the class \<open>DBManager\<close> (module \<open>db\<close>) is not among the
  sources. The spec gives its contract: a game record per player address holding the
  current board serialization (nullable), the group chat id and the high score, read by
  player (\<open>get_game_by_addr\<close>) or by chat (\<open>get_game_by_gid\<close>), written by
  \<open>set_board\<close> (the board only), \<open>set_game\<close> (board and score) and \<open>add_game\<close>;
  and a nick per address. The rows are kept as a list; a lookup returns the first row
  that matches, a write updates every row of the address. The score of a new row, which
  the spec leaves open, is 0.
\<close>

record game =
  addr :: pystr
  gid :: int
  board :: "pystr option"
  score :: int

record dbmanager =
  games :: "game list"
  nicks :: "(pystr \<times> pystr) list"

definition get_game_by_gid :: "dbmanager \<Rightarrow> int \<Rightarrow> game option" where
  "get_game_by_gid d i = find (\<lambda>g. gid g = i) (games d)"

definition get_game_by_addr :: "dbmanager \<Rightarrow> pystr \<Rightarrow> game option" where
  "get_game_by_addr d a = find (\<lambda>g. addr g = a) (games d)"

definition set_board :: "dbmanager \<Rightarrow> pystr \<Rightarrow> pystr option \<Rightarrow> dbmanager" where
  "set_board d a b =
     d\<lparr>games := map (\<lambda>g. if addr g = a then g\<lparr>board := b\<rparr> else g) (games d)\<rparr>"

definition set_game :: "dbmanager \<Rightarrow> pystr \<Rightarrow> pystr option \<Rightarrow> int \<Rightarrow> dbmanager" where
  "set_game d a b s =
     d\<lparr>games := map (\<lambda>g. if addr g = a then g\<lparr>board := b, score := s\<rparr> else g) (games d)\<rparr>"

definition add_game :: "dbmanager \<Rightarrow> pystr \<Rightarrow> int \<Rightarrow> pystr \<Rightarrow> dbmanager" where
  "add_game d a i b =
     d\<lparr>games := games d @ [\<lparr>addr = a, gid = i, board = Some b, score = 0\<rparr>]\<rparr>"

definition get_nick :: "dbmanager \<Rightarrow> pystr \<Rightarrow> pystr option" where
  "get_nick d a = map_of (nicks d) a"

text \<open>Python's \<open>not x\<close> for an optional string: true for \<open>None\<close> and for \<open>""\<close>.\<close>

definition falsy :: "pystr option \<Rightarrow> bool" where
  "falsy v = (case v of None \<Rightarrow> True | Some s \<Rightarrow> s = [])"

section \<open>The board class, as the plugin uses it\<close>

text \<open>
  The class \<open>Board\<close> (module \<open>game\<close>) is not among the sources; the plugin is
  modelled over its methods, taken as parameters. \<open>Board_of\<close> is \<open>Board(serialized)\<close>
  and \<open>move\<close> is \<open>b.move(token)\<close>, which mutates the board: both may raise. The other
  methods are queries: \<open>export\<close>, \<open>result\<close> (1 for a win, -1 for a loss),
  \<open>get_score\<close> at a time, \<open>reveal\<close> (the full-disclosure render) and \<open>str\<close> (the
  render of the board as currently known).
\<close>

record ('b, 't) board_ops =
  Board_of :: "pystr \<Rightarrow> exn + 'b"
  move :: "'b \<Rightarrow> pystr \<Rightarrow> exn + 'b"
  export :: "'b \<Rightarrow> pystr"
  result :: "'b \<Rightarrow> int"
  get_score :: "'b \<Rightarrow> 't \<Rightarrow> int"
  reveal :: "'b \<Rightarrow> int \<Rightarrow> pystr"
  str :: "'b \<Rightarrow> pystr"

section \<open>The turn: \<open>_run_turn\<close>\<close>

definition no_active_game :: pystr where
  "no_active_game = lit ''No active game, send /mines_play to start playing.''"

definition play_again :: "pystr \<Rightarrow> pystr" where
  "play_again full = NL @ NL @ full @ NL @ play_button @ lit '' Play again? /mines_play''"

definition score_line :: "int \<Rightarrow> pystr" where
  "score_line s = lit ''New High Score: '' @ str_int s"

definition win_text :: "int \<Rightarrow> pystr" where
  "win_text s =
     trophy @ lit '' Game over. You Win!!!'' @ NL @
     score_line s @ NL @ bar_chart @ lit '' /mines_top''"

definition died_text :: pystr where
  "died_text = skull @ lit '' Game over. You died.'' @ NL @ bar_chart @ lit '' /mines_top''"

text \<open>
  \<open>_run_turn(gid)\<close> returns a text or raises, and may write to the storage: the result
  is the text or the exception, with the storage as it is left. \<open>now\<close> is the value of
  \<open>time.time()\<close>.
\<close>

definition run_turn ::
  "('b, 't) board_ops \<Rightarrow> 't \<Rightarrow> dbmanager \<Rightarrow> int \<Rightarrow> (exn + pystr) \<times> dbmanager" where
  "run_turn ops now d i =
     (case get_game_by_gid d i of
        None \<Rightarrow> (Inl AssertionError, d)
      | Some g \<Rightarrow>
          (case board g of
             None \<Rightarrow> (Inr no_active_game, d)
           | Some ser \<Rightarrow>
               if ser = [] then (Inr no_active_game, d)
               else
                 (case Board_of ops ser of
                    Inl e \<Rightarrow> (Inl e, d)
                  | Inr b \<Rightarrow>
                      let r = result ops b in
                      if r = 1 then
                        let s = get_score ops b now;
                            s' = (if s \<le> score g then score g + 1 else s)
                        in (Inr (win_text s' @ play_again (reveal ops b r)),
                            set_game d (addr g) None s')
                      else if r = - 1 then
                        (Inr (died_text @ play_again (reveal ops b r)),
                         set_board d (addr g) None)
                      else (Inr (str ops b), d))))"

section \<open>The handlers\<close>

text \<open>
  A handler receives the bot (its storage and its group chats), a message and an empty
  list of replies; it leaves the bot changed, replies added, and possibly an exception
  raised. The logger is not modelled.
\<close>

record message =
  m_text :: pystr
  m_chat :: int
  sender_addr :: pystr
  sender_name :: pystr

record reply =
  r_text :: pystr
  r_chat :: "int option"

record group =
  g_id :: int
  g_name :: pystr
  g_members :: "pystr list"

record bot =
  db :: dbmanager
  groups :: "group list"

record outcome =
  after :: bot
  replies :: "reply list"
  raised :: "exn option"

definition ignored :: "bot \<Rightarrow> outcome" where
  "ignored st = \<lparr>after = st, replies = [], raised = None\<rparr>"

definition answer :: "bot \<Rightarrow> dbmanager \<Rightarrow> int option \<Rightarrow> pystr \<Rightarrow> (exn + pystr) \<Rightarrow> outcome" where
  "answer st d c prefix r =
     (case r of
        Inl e \<Rightarrow> \<lparr>after = st\<lparr>db := d\<rparr>, replies = [], raised = Some e\<rparr>
      | Inr t \<Rightarrow> \<lparr>after = st\<lparr>db := d\<rparr>,
                  replies = [\<lparr>r_text = prefix @ t, r_chat = c\<rparr>], raised = None\<rparr>)"

subsection \<open>The move filter: \<open>filter_messages\<close>\<close>

text \<open>The body of the \<open>try\<close> block: load the board, move, store, run the turn.\<close>

definition try_move ::
  "('b, 't) board_ops \<Rightarrow> 't \<Rightarrow> dbmanager \<Rightarrow> game \<Rightarrow> pystr \<Rightarrow> message
     \<Rightarrow> (exn + pystr) \<times> dbmanager" where
  "try_move ops now d g ser m =
     (case Board_of ops ser of
        Inl e \<Rightarrow> (Inl e, d)
      | Inr b \<Rightarrow>
          (case move ops b (m_text m) of
             Inl e \<Rightarrow> (Inl e, d)
           | Inr b' \<Rightarrow>
               run_turn ops now (set_board d (addr g) (Some (export ops b'))) (m_chat m)))"

definition invalid_move :: pystr where
  "invalid_move = cross_mark @ lit '' Invalid move!''"

definition filter_messages ::
  "unicode \<Rightarrow> ('b, 't) board_ops \<Rightarrow> 't \<Rightarrow> bot \<Rightarrow> message \<Rightarrow> outcome" where
  "filter_messages U ops now st m =
     (if length (m_text m) \<noteq> 2 \<or> \<not> isalnum U (m_text m)
         \<or> isalpha U (m_text m) \<or> isdigit U (m_text m)
      then ignored st
      else
        (case get_game_by_gid (db st) (m_chat m) of
           None \<Rightarrow> ignored st
         | Some g \<Rightarrow>
             (case board g of
                None \<Rightarrow> ignored st
              | Some ser \<Rightarrow>
                  (case try_move ops now (db st) g ser m of
                     (Inl ValueError, d) \<Rightarrow>
                       \<lparr>after = st\<lparr>db := d\<rparr>,
                        replies = [\<lparr>r_text = invalid_move, r_chat = None\<rparr>], raised = None\<rparr>
                   | (r, d) \<Rightarrow> answer st d None [] r))))"

subsection \<open>The commands \<open>/mines_play\<close> and \<open>/mines_repeat\<close>\<close>

definition need_nick :: pystr where
  "need_nick = lit ''You need to set a nick before start playing, send /mines_nick Your Nick''"

text \<open>
  \<open>fresh\<close> is the board \<open>Board()\<close> creates (its mines are random), \<open>new_gid\<close> the
  id of the group chat \<open>bot.create_group\<close> creates.
\<close>

definition mines_play ::
  "('b, 't) board_ops \<Rightarrow> 't \<Rightarrow> 'b \<Rightarrow> int \<Rightarrow> bot \<Rightarrow> message \<Rightarrow> outcome" where
  "mines_play ops now fresh new_gid st m =
     (if falsy (get_nick (db st) (sender_addr m))
      then \<lparr>after = st, replies = [\<lparr>r_text = need_nick, r_chat = None\<rparr>], raised = None\<rparr>
      else
        (case get_game_by_addr (db st) (sender_addr m) of
           None \<Rightarrow>
             let st1 = st\<lparr>groups := groups st @
                         [\<lparr>g_id = new_gid, g_name = bomb @ lit '' Minesweeper'',
                           g_members = [sender_addr m]\<rparr>]\<rparr>;
                 d1 = add_game (db st1) (sender_addr m) new_gid (export ops fresh);
                 hello = lit ''Hello '' @ sender_name m
                           @ lit '', in this group you can play Minesweeper.'' @ NL @ NL;
                 (r, d2) = run_turn ops now d1 new_gid
             in answer st1 d2 (Some new_gid) hello r
         | Some g \<Rightarrow>
             let d1 = set_board (db st) (addr g) (Some (export ops fresh));
                 chat = (if m_chat m = gid g then m_chat m else gid g);
                 (r, d2) = run_turn ops now d1 (gid g)
             in answer st d2 (Some chat) (lit ''Game started!'' @ NL @ NL) r))"

definition mines_repeat :: "('b, 't) board_ops \<Rightarrow> 't \<Rightarrow> bot \<Rightarrow> message \<Rightarrow> outcome" where
  "mines_repeat ops now st m =
     (case get_game_by_addr (db st) (sender_addr m) of
        Some g \<Rightarrow>
          let chat = (if m_chat m = gid g then m_chat m else gid g);
              (r, d) = run_turn ops now (db st) (gid g)
          in answer st d (Some chat) [] r
      | None \<Rightarrow>
          \<lparr>after = st, replies = [\<lparr>r_text = no_active_game, r_chat = None\<rparr>], raised = None\<rparr>)"

section \<open>Notions the claims are stated with\<close>

text \<open>
  A candidate move, in the words of the specification: a text of exactly two characters,
  all alphanumeric, not all alphabetic and not all digits.
\<close>

definition candidate_move :: "unicode \<Rightarrow> pystr \<Rightarrow> bool" where
  "candidate_move U t = (length t = 2 \<and> isalnum U t \<and> \<not> isalpha U t \<and> \<not> isdigit U t)"

text \<open>
  A valid move: the message \<open>m\<close> is a candidate move in the chat of game \<open>g\<close>, which
  has a board; the board loads and takes the move without raising; \<open>ser'\<close> is the
  serialization stored after the move, not empty, and \<open>c\<close> the board the turn loads
  from it.
\<close>

definition valid_move ::
  "unicode \<Rightarrow> ('b, 't) board_ops \<Rightarrow> bot \<Rightarrow> message \<Rightarrow> game \<Rightarrow> pystr \<Rightarrow> 'b \<Rightarrow> bool" where
  "valid_move U ops st m g ser' c =
     (candidate_move U (m_text m) \<and> get_game_by_gid (db st) (m_chat m) = Some g \<and>
      (case board g of
         None \<Rightarrow> False
       | Some ser \<Rightarrow>
           (case Board_of ops ser of
              Inl e \<Rightarrow> False
            | Inr b \<Rightarrow>
                (case move ops b (m_text m) of
                   Inl e \<Rightarrow> False
                 | Inr b' \<Rightarrow> ser' = export ops b' \<and> ser' \<noteq> [] \<and> Board_of ops ser' = Inr c))))"

text \<open>
  The score update rule in the words of the specification: the larger of the stored high
  score and the new score, and one point above the stored high score when the new score
  does not exceed it.
\<close>

definition high_score_after_win :: "int \<Rightarrow> int \<Rightarrow> int" where
  "high_score_after_win old s = (if old < s then max old s else old + 1)"

section \<open>The move parser\<close>

text \<open>
  Modelled from the spec: the move parser is part of the class \<open>Board\<close> (its method
  \<open>move\<close>), which is not among the sources. The specification gives its contract: the
  token has two characters, one alphabetic, selecting an axis without regard to case, and
  one a digit, selecting the other axis, in either order; parsing fails with
  \<open>InvalidToken\<close> when the token is malformed or addresses a coordinate outside
  \<open>[0, width) x [0, height)\<close>. In the specification's scenario \<open>A9\<close> fails on a board
  of 8 rows, so the digit selects the row and the letter the column. The digit that names
  row 0, which the specification leaves open, is the parameter \<open>origin\<close>.
\<close>

datatype move_error = InvalidToken | OutOfBounds

definition letter_index :: "nat \<Rightarrow> nat option" where
  "letter_index ch =
     (if 97 \<le> ch \<and> ch \<le> 122 then Some (ch - 97)
      else if 65 \<le> ch \<and> ch \<le> 90 then Some (ch - 65) else None)"

definition digit_value :: "nat \<Rightarrow> nat option" where
  "digit_value ch = (if 48 \<le> ch \<and> ch \<le> 57 then Some (ch - 48) else None)"

definition locate :: "nat \<Rightarrow> nat \<Rightarrow> nat \<Rightarrow> nat \<Rightarrow> nat \<Rightarrow> move_error + nat \<times> nat" where
  "locate w h origin d col =
     (if origin \<le> d \<and> d - origin < h \<and> col < w then Inr (d - origin, col)
      else Inl InvalidToken)"

definition Parse :: "nat \<Rightarrow> nat \<Rightarrow> nat \<Rightarrow> pystr \<Rightarrow> move_error + nat \<times> nat" where
  "Parse w h origin token =
     (case token of
        [x, y] \<Rightarrow>
          (case (letter_index x, digit_value y) of
             (Some col, Some d) \<Rightarrow> locate w h origin d col
           | _ \<Rightarrow>
               (case (digit_value x, letter_index y) of
                  (Some d, Some col) \<Rightarrow> locate w h origin d col
                | _ \<Rightarrow> Inl InvalidToken))
      | _ \<Rightarrow> Inl InvalidToken)"

section \<open>The board and its serialization\<close>

text \<open>
  Modelled from the spec: the class \<open>Board\<close> (module \<open>game\<close>) is not among the
  sources, and with it \<open>Export\<close> and \<open>Import\<close>. The specification gives the data
  model: a board has its dimensions, a grid of cells (one per row and column, kept here
  row by row in a list), the number of mines and the time it was started; a cell is a
  mine or not, holds the number of mines among its up to 8 grid neighbours, and is hidden
  or revealed. The serialization encodes what the specification requires at minimum: the
  dimensions, the mine positions, the reveal state of each cell and the start timestamp.
  Its concrete syntax, which the specification leaves open, is not modelled: the
  serialized form is kept as these components. \<open>Import\<close> rebuilds the cells, counting
  the mine neighbours of each cell as the creation of a board does, and fails with
  \<open>CorruptState\<close> on malformed input.
\<close>

datatype cell_state = Hidden | Revealed

record cell =
  isMine :: bool
  adjacentMineCount :: nat
  state :: cell_state

record 't Board =
  width :: nat
  height :: nat
  cells :: "cell list"
  mineCount :: nat
  startedAt :: 't

text \<open>The cell in row \<open>r\<close> and column \<open>c\<close> has index \<open>r * width + c\<close>.\<close>

definition neighbours :: "nat \<Rightarrow> nat \<Rightarrow> nat \<Rightarrow> nat list" where
  "neighbours w h i =
     [r * w + c. r \<leftarrow> [i div w - 1 ..< min h (i div w + 2)],
                 c \<leftarrow> [i mod w - 1 ..< min w (i mod w + 2)], r * w + c \<noteq> i]"

definition mine_neighbours :: "'t Board \<Rightarrow> nat \<Rightarrow> nat" where
  "mine_neighbours b i =
     length (filter (\<lambda>j. isMine (cells b ! j)) (neighbours (width b) (height b) i))"

text \<open>
  The invariants of the data model: one cell per grid position, exactly \<open>mineCount\<close>
  mine cells, and in every cell the number of mines among its neighbours.
\<close>

definition well_formed :: "'t Board \<Rightarrow> bool" where
  "well_formed b =
     (length (cells b) = width b * height b \<and>
      mineCount b = length (filter isMine (cells b)) \<and>
      list_all (\<lambda>i. adjacentMineCount (cells b ! i) = mine_neighbours b i)
        [0 ..< length (cells b)])"

datatype import_error = CorruptState

record 't serialized =
  s_width :: nat
  s_height :: nat
  s_mines :: "nat list"
  s_revealed :: "bool list"
  s_startedAt :: 't

definition Export :: "'t Board \<Rightarrow> 't serialized" where
  "Export b =
     \<lparr>s_width = width b, s_height = height b,
      s_mines = filter (\<lambda>i. isMine (cells b ! i)) [0 ..< length (cells b)],
      s_revealed = map (\<lambda>c. state c = Revealed) (cells b),
      s_startedAt = startedAt b\<rparr>"

definition Import :: "'t serialized \<Rightarrow> import_error + 't Board" where
  "Import s =
     (if length (s_revealed s) = s_width s * s_height s \<and>
         list_all (\<lambda>i. i < s_width s * s_height s) (s_mines s) \<and> distinct (s_mines s)
      then Inr \<lparr>width = s_width s, height = s_height s,
                cells = map (\<lambda>i. \<lparr>isMine = i \<in> set (s_mines s),
                                   adjacentMineCount =
                                     length (filter (\<lambda>j. j \<in> set (s_mines s))
                                       (neighbours (s_width s) (s_height s) i)),
                                   state = (if s_revealed s ! i then Revealed else Hidden)\<rparr>)
                          [0 ..< s_width s * s_height s],
                mineCount = length (s_mines s), startedAt = s_startedAt s\<rparr>
      else Inl CorruptState)"

text \<open>
  The board of the specification's scenario: 3 by 3, one mine in the corner (0, 0); here
  with the cell (0, 1) revealed.
\<close>

definition corner_board :: "int Board" where
  "corner_board =
     \<lparr>width = 3, height = 3,
      cells = [\<lparr>isMine = True, adjacentMineCount = 0, state = Hidden\<rparr>,
               \<lparr>isMine = False, adjacentMineCount = 1, state = Revealed\<rparr>,
               \<lparr>isMine = False, adjacentMineCount = 0, state = Hidden\<rparr>,
               \<lparr>isMine = False, adjacentMineCount = 1, state = Hidden\<rparr>,
               \<lparr>isMine = False, adjacentMineCount = 1, state = Hidden\<rparr>,
               \<lparr>isMine = False, adjacentMineCount = 0, state = Hidden\<rparr>,
               \<lparr>isMine = False, adjacentMineCount = 0, state = Hidden\<rparr>,
               \<lparr>isMine = False, adjacentMineCount = 0, state = Hidden\<rparr>,
               \<lparr>isMine = False, adjacentMineCount = 0, state = Hidden\<rparr>],
      mineCount = 1, startedAt = 1700000000\<rparr>"

section \<open>A small instance\<close>

text \<open>
  An instance of the board parameters on which the handlers can be evaluated: a board is
  its own serialization; the token \<open>a1\<close> wins, \<open>b1\<close> loses, \<open>c1\<close> continues and any
  other token is an invalid move; the score is 100 minus the time. One player, \<open>pat\<close>,
  has a game in group chat 7 with high score 3.
\<close>

definition demo_ops :: "(pystr, int) board_ops" where
  "demo_ops =
     \<lparr>Board_of = (\<lambda>s. if s = lit ''!'' then Inl OtherError else Inr s),
      move = (\<lambda>b t. if t = lit ''a1'' then Inr (lit ''won'')
                     else if t = lit ''b1'' then Inr (lit ''lost'')
                     else if t = lit ''c1'' then Inr (b @ t)
                     else Inl ValueError),
      export = (\<lambda>b. b),
      result = (\<lambda>b. if b = lit ''won'' then 1 else if b = lit ''lost'' then - 1 else 0),
      get_score = (\<lambda>b now. 100 - now),
      reveal = (\<lambda>b r. lit ''[*]''),
      str = (\<lambda>b. lit ''[?]'')\<rparr>"

definition player :: pystr where
  "player = lit ''pat@example.org''"

definition demo_game :: "pystr option \<Rightarrow> int \<Rightarrow> game" where
  "demo_game b s = \<lparr>addr = player, gid = 7, board = b, score = s\<rparr>"

definition demo_bot :: "pystr option \<Rightarrow> bot" where
  "demo_bot b =
     \<lparr>db = \<lparr>games = [demo_game b 3], nicks = [(player, lit ''pat'')]\<rparr>,
      groups = [\<lparr>g_id = 7, g_name = bomb @ lit '' Minesweeper'', g_members = [player]\<rparr>]\<rparr>"

definition demo_msg :: "pystr \<Rightarrow> message" where
  "demo_msg t = \<lparr>m_text = t, m_chat = 7, sender_addr = player, sender_name = lit ''Pat''\<rparr>"

definition stranger_msg :: "pystr \<Rightarrow> message" where
  "stranger_msg t =
     \<lparr>m_text = t, m_chat = 1, sender_addr = lit ''sam@example.org'', sender_name = lit ''Sam''\<rparr>"

section \<open>Lemmas on the storage and the turn\<close>

lemma find_map_same:
  "(\<And>x. P (f x) = P x) \<Longrightarrow> find P (map f xs) = map_option f (find P xs)"
  by (induction xs) auto

lemma find_Some_mem: "find P xs = Some x \<Longrightarrow> x \<in> set xs"
  by (induction xs) (auto split: if_splits)

lemma find_mem_ex: "x \<in> set xs \<Longrightarrow> P x \<Longrightarrow> \<exists>y. find P xs = Some y \<and> P y"
  by (induction xs) auto

lemma get_game_by_gid_set_board:
  "get_game_by_gid (set_board d a b) i =
     map_option (\<lambda>g. if addr g = a then g\<lparr>board := b\<rparr> else g) (get_game_by_gid d i)"
  unfolding get_game_by_gid_def set_board_def by (simp add: find_map_same)

lemma get_game_by_gid_set_game:
  "get_game_by_gid (set_game d a b s) i =
     map_option (\<lambda>g. if addr g = a then g\<lparr>board := b, score := s\<rparr> else g)
       (get_game_by_gid d i)"
  unfolding get_game_by_gid_def set_game_def by (simp add: find_map_same)

lemma get_game_by_addr_set_board:
  "get_game_by_addr (set_board d a b) a' =
     map_option (\<lambda>g. if addr g = a then g\<lparr>board := b\<rparr> else g) (get_game_by_addr d a')"
  unfolding get_game_by_addr_def set_board_def by (simp add: find_map_same)

lemma get_game_by_addr_set_game:
  "get_game_by_addr (set_game d a b s) a' =
     map_option (\<lambda>g. if addr g = a then g\<lparr>board := b, score := s\<rparr> else g)
       (get_game_by_addr d a')"
  unfolding get_game_by_addr_def set_game_def by (simp add: find_map_same)

text \<open>The player of a game found by its chat has a record under their address.\<close>

lemma addr_row_exists:
  assumes "get_game_by_gid d i = Some g"
  shows "\<exists>g0. get_game_by_addr d (addr g) = Some g0 \<and> addr g0 = addr g"
proof -
  from assms have "g \<in> set (games d)"
    unfolding get_game_by_gid_def by (rule find_Some_mem)
  then show ?thesis
    unfolding get_game_by_addr_def by (rule find_mem_ex) simp
qed

text \<open>The turn on a game whose board loads: the three branches of \<open>_run_turn\<close>.\<close>

lemma run_turn_loaded:
  assumes "get_game_by_gid d i = Some g" and "board g = Some ser" and "ser \<noteq> []"
    and "Board_of ops ser = Inr b"
  shows "run_turn ops now d i =
     (if result ops b = 1 then
        (Inr (win_text (if get_score ops b now \<le> score g then score g + 1
                        else get_score ops b now) @ play_again (reveal ops b 1)),
         set_game d (addr g) None
           (if get_score ops b now \<le> score g then score g + 1 else get_score ops b now))
      else if result ops b = - 1 then
        (Inr (died_text @ play_again (reveal ops b (- 1))), set_board d (addr g) None)
      else (Inr (str ops b), d))"
  using assms unfolding run_turn_def by (simp add: Let_def)

text \<open>
  A valid move stores the new serialization and answers with the text of the turn run on
  the stored board.
\<close>

lemma valid_move_gid:
  "valid_move U ops st m g ser' c \<Longrightarrow> get_game_by_gid (db st) (m_chat m) = Some g"
  by (simp add: valid_move_def)

lemma filter_valid_move:
  assumes "valid_move U ops st m g ser' c"
  shows "filter_messages U ops now st m =
     answer st (snd (run_turn ops now (set_board (db st) (addr g) (Some ser')) (m_chat m)))
       None [] (fst (run_turn ops now (set_board (db st) (addr g) (Some ser')) (m_chat m)))
     \<and> run_turn ops now (set_board (db st) (addr g) (Some ser')) (m_chat m) =
     (if result ops c = 1 then
        (Inr (win_text (if get_score ops c now \<le> score g then score g + 1
                        else get_score ops c now) @ play_again (reveal ops c 1)),
         set_game (set_board (db st) (addr g) (Some ser')) (addr g) None
           (if get_score ops c now \<le> score g then score g + 1 else get_score ops c now))
      else if result ops c = - 1 then
        (Inr (died_text @ play_again (reveal ops c (- 1))),
         set_board (set_board (db st) (addr g) (Some ser')) (addr g) None)
      else (Inr (str ops c), set_board (db st) (addr g) (Some ser')))"
proof -
  let ?d = "set_board (db st) (addr g) (Some ser')"
  from assms have cand: "candidate_move U (m_text m)"
    and g: "get_game_by_gid (db st) (m_chat m) = Some g"
    by (simp_all add: valid_move_def)
  from assms obtain ser b b' where ser: "board g = Some ser"
    and b: "Board_of ops ser = Inr b" and b': "move ops b (m_text m) = Inr b'"
    and ser': "ser' = export ops b'" "ser' \<noteq> []" and c: "Board_of ops ser' = Inr c"
    by (auto simp: valid_move_def split: option.splits sum.splits)
  have g': "get_game_by_gid ?d (m_chat m) = Some (g\<lparr>board := Some ser'\<rparr>)"
    by (simp add: get_game_by_gid_set_board g)
  have rt: "run_turn ops now ?d (m_chat m) =
     (if result ops c = 1 then
        (Inr (win_text (if get_score ops c now \<le> score g then score g + 1
                        else get_score ops c now) @ play_again (reveal ops c 1)),
         set_game ?d (addr g) None
           (if get_score ops c now \<le> score g then score g + 1 else get_score ops c now))
      else if result ops c = - 1 then
        (Inr (died_text @ play_again (reveal ops c (- 1))), set_board ?d (addr g) None)
      else (Inr (str ops c), ?d))"
    using run_turn_loaded [OF g', of ser' ops c now] ser' c by simp
  have "filter_messages U ops now st m =
      answer st (snd (run_turn ops now ?d (m_chat m))) None []
        (fst (run_turn ops now ?d (m_chat m)))"
    using cand g ser b b'
    unfolding filter_messages_def try_move_def candidate_move_def
    by (simp add: ser'(1) [symmetric] rt)
  with rt show ?thesis by simp
qed

lemma filter_won:
  assumes "valid_move U ops st m g ser' c" and "result ops c = 1"
  shows "filter_messages U ops now st m =
     \<lparr>after = st\<lparr>db := set_game (set_board (db st) (addr g) (Some ser')) (addr g) None
                       (if get_score ops c now \<le> score g then score g + 1
                        else get_score ops c now)\<rparr>,
      replies = [\<lparr>r_text = win_text (if get_score ops c now \<le> score g then score g + 1
                                     else get_score ops c now) @ play_again (reveal ops c 1),
                  r_chat = None\<rparr>],
      raised = None\<rparr>"
  using filter_valid_move [OF assms(1), of now] assms(2) by (simp add: answer_def)

lemma filter_lost:
  assumes "valid_move U ops st m g ser' c" and "result ops c = - 1"
  shows "filter_messages U ops now st m =
     \<lparr>after = st\<lparr>db := set_board (set_board (db st) (addr g) (Some ser')) (addr g) None\<rparr>,
      replies = [\<lparr>r_text = died_text @ play_again (reveal ops c (- 1)), r_chat = None\<rparr>],
      raised = None\<rparr>"
  using filter_valid_move [OF assms(1), of now] assms(2) by (simp add: answer_def)

lemmas demo_defs =
  demo_ops_def demo_bot_def demo_game_def demo_msg_def player_def lit_def get_game_by_gid_def

lemmas ascii_defs =
  ascii_def ascii_alpha_def ascii_digit_def isalnum_def isalpha_def isdigit_def
  candidate_move_def

section \<open>The claims\<close>

subsection \<open>The score after a win\<close>

text \<open>
  Claim C1. When a valid move finishes the game as won, the record of the game has no
  board and its score is the score of the specification's update rule on the stored high
  score and the score computed for the board: the larger of the two, and the stored high
  score plus one when the computed score does not exceed it. The record found under the
  player's address holds that score, and it is strictly above the stored high score.
\<close>

theorem win_raises_high_score:
  assumes "valid_move U ops st m g ser' c" and "result ops c = 1"
  shows "get_game_by_gid (db (after (filter_messages U ops now st m))) (m_chat m) =
           Some (g\<lparr>board := None,
                   score := high_score_after_win (score g) (get_score ops c now)\<rparr>) \<and>
         map_option score
           (get_game_by_addr (db (after (filter_messages U ops now st m))) (addr g)) =
           Some (high_score_after_win (score g) (get_score ops c now)) \<and>
         score g < high_score_after_win (score g) (get_score ops c now)"
proof -
  let ?new = "if get_score ops c now \<le> score g then score g + 1 else get_score ops c now"
  have new: "?new = high_score_after_win (score g) (get_score ops c now)"
    by (simp add: high_score_after_win_def)
  have g: "get_game_by_gid (db st) (m_chat m) = Some g"
    using assms(1) by (rule valid_move_gid)
  from addr_row_exists [OF g] obtain g0
    where g0: "get_game_by_addr (db st) (addr g) = Some g0" "addr g0 = addr g" by blast
  have out: "db (after (filter_messages U ops now st m)) =
      set_game (set_board (db st) (addr g) (Some ser')) (addr g) None ?new"
    using filter_won [OF assms, of now] by simp
  have "get_game_by_gid (db (after (filter_messages U ops now st m))) (m_chat m) =
      Some (g\<lparr>board := None, score := ?new\<rparr>)"
    unfolding out by (simp add: get_game_by_gid_set_game get_game_by_gid_set_board g)
  moreover have "map_option score
      (get_game_by_addr (db (after (filter_messages U ops now st m))) (addr g)) = Some ?new"
    unfolding out by (simp add: get_game_by_addr_set_game get_game_by_addr_set_board g0)
  moreover have "score g < ?new" by simp
  ultimately show ?thesis unfolding new by blast
qed

text \<open>
  On the instance: at time 99 the computed score 1 does not exceed the high score 3, and
  the win stores 4.
\<close>

theorem win_raises_high_score_witness:
  "valid_move ascii demo_ops (demo_bot (Some (lit ''new''))) (demo_msg (lit ''a1''))
     (demo_game (Some (lit ''new'')) 3) (lit ''won'') (lit ''won'') \<and>
   result demo_ops (lit ''won'') = 1 \<and> get_score demo_ops (lit ''won'') 99 = 1 \<and>
   get_game_by_gid (db (after (filter_messages ascii demo_ops (99::int)
       (demo_bot (Some (lit ''new''))) (demo_msg (lit ''a1''))))) 7 = Some (demo_game None 4) \<and>
   map_option score (get_game_by_addr (db (after (filter_messages ascii demo_ops (99::int)
       (demo_bot (Some (lit ''new''))) (demo_msg (lit ''a1''))))) player) = Some 4"
  using win_raises_high_score
          [of ascii demo_ops "demo_bot (Some (lit ''new''))" "demo_msg (lit ''a1'')"
              "demo_game (Some (lit ''new'')) 3" "lit ''won''" "lit ''won''" 99]
  by (simp add: demo_defs ascii_defs valid_move_def get_game_by_addr_def
      high_score_after_win_def)

subsection \<open>The move filter\<close>

text \<open>
  Claim C2. A message whose text is not a candidate move (exactly two characters, all
  alphanumeric, not all alphabetic, not all digits) is ignored by the move filter: the
  bot is unchanged, there is no reply and nothing is raised. So only a candidate move is
  processed.
\<close>

theorem filter_ignores_non_candidates:
  assumes "\<not> candidate_move U (m_text m)"
  shows "filter_messages U ops now st m = \<lparr>after = st, replies = [], raised = None\<rparr>"
  using assms unfolding filter_messages_def candidate_move_def ignored_def by auto

theorem filter_ignores_non_candidates_witness:
  "\<not> candidate_move ascii (lit ''ab'') \<and>
   filter_messages ascii demo_ops (40::int) (demo_bot (Some (lit ''new''))) (demo_msg (lit ''ab''))
     = \<lparr>after = demo_bot (Some (lit ''new'')), replies = [], raised = None\<rparr>"
  using filter_ignores_non_candidates
          [of ascii "demo_msg (lit ''ab'')" demo_ops 40 "demo_bot (Some (lit ''new''))"]
  by (simp add: demo_defs ascii_defs)

subsection \<open>An invalid move\<close>

text \<open>
  Claim C3. When the board of the game loads and the move of a candidate token raises
  \<open>ValueError\<close>, the only reply is the invalid-move text, nothing is raised and the bot,
  with its storage, is as it was.
\<close>

theorem invalid_move_leaves_storage:
  assumes "candidate_move U (m_text m)"
    and "get_game_by_gid (db st) (m_chat m) = Some g" and "board g = Some ser"
    and "Board_of ops ser = Inr b" and "move ops b (m_text m) = Inl ValueError"
  shows "filter_messages U ops now st m =
     \<lparr>after = st, replies = [\<lparr>r_text = invalid_move, r_chat = None\<rparr>], raised = None\<rparr>"
  using assms unfolding filter_messages_def candidate_move_def try_move_def by simp

theorem invalid_move_leaves_storage_witness:
  "candidate_move ascii (lit ''z9'') \<and>
   move demo_ops (lit ''new'') (lit ''z9'') = Inl ValueError \<and>
   filter_messages ascii demo_ops (40::int) (demo_bot (Some (lit ''new''))) (demo_msg (lit ''z9''))
     = \<lparr>after = demo_bot (Some (lit ''new'')),
        replies = [\<lparr>r_text = invalid_move, r_chat = None\<rparr>], raised = None\<rparr>"
  using invalid_move_leaves_storage
          [of ascii "demo_msg (lit ''z9'')" "demo_bot (Some (lit ''new''))"
              "demo_game (Some (lit ''new'')) 3" "lit ''new''" demo_ops "lit ''new''" 40]
  by (simp add: demo_defs ascii_defs)

subsection \<open>A terminal move\<close>

text \<open>
  Claim C4 as stated does not hold of a loss. On the instance, at time 40, the move
  \<open>b1\<close> loses the game: the score computed for the board is 60, and the record keeps
  its score 3 while its board is cleared. The loss writes no score.
\<close>

theorem loss_writes_no_score:
  "result demo_ops (lit ''lost'') = - 1 \<and> get_score demo_ops (lit ''lost'') 40 = 60 \<and>
   get_game_by_gid (db (after (filter_messages ascii demo_ops (40::int)
       (demo_bot (Some (lit ''new''))) (demo_msg (lit ''b1''))))) 7 = Some (demo_game None 3)"
proof -
  have "valid_move ascii demo_ops (demo_bot (Some (lit ''new''))) (demo_msg (lit ''b1''))
     (demo_game (Some (lit ''new'')) 3) (lit ''lost'') (lit ''lost'')"
    by (simp add: demo_defs ascii_defs valid_move_def)
  from filter_lost [OF this, of 40] show ?thesis
    by (simp add: demo_defs ascii_defs valid_move_def set_board_def)
qed

text \<open>
  Claim C4, amended. When a valid move finishes the game as won, the record of the game
  has its board cleared and holds the final score (the computed score, or the stored
  high score plus one when the computed score does not exceed it). When the move finishes
  the game as lost, the record has its board cleared and its score is the one it had.
\<close>

theorem terminal_move_clears_board:
  assumes "valid_move U ops st m g ser' c"
  shows "(result ops c = 1 \<longrightarrow>
            get_game_by_gid (db (after (filter_messages U ops now st m))) (m_chat m) =
              Some (g\<lparr>board := None,
                      score := (if get_score ops c now \<le> score g then score g + 1
                                else get_score ops c now)\<rparr>)) \<and>
         (result ops c = - 1 \<longrightarrow>
            get_game_by_gid (db (after (filter_messages U ops now st m))) (m_chat m) =
              Some (g\<lparr>board := None\<rparr>))"
proof -
  have g: "get_game_by_gid (db st) (m_chat m) = Some g"
    using assms by (rule valid_move_gid)
  show ?thesis
  proof (intro conjI impI)
    assume "result ops c = 1"
    from filter_won [OF assms this, of now]
    show "get_game_by_gid (db (after (filter_messages U ops now st m))) (m_chat m) =
              Some (g\<lparr>board := None,
                      score := (if get_score ops c now \<le> score g then score g + 1
                                else get_score ops c now)\<rparr>)"
      by (simp add: get_game_by_gid_set_game get_game_by_gid_set_board g)
  next
    assume "result ops c = - 1"
    from filter_lost [OF assms this, of now]
    show "get_game_by_gid (db (after (filter_messages U ops now st m))) (m_chat m) =
              Some (g\<lparr>board := None\<rparr>)"
      by (simp add: get_game_by_gid_set_board g)
  qed
qed

theorem terminal_move_clears_board_witness:
  "valid_move ascii demo_ops (demo_bot (Some (lit ''new''))) (demo_msg (lit ''b1''))
     (demo_game (Some (lit ''new'')) 3) (lit ''lost'') (lit ''lost'') \<and>
   result demo_ops (lit ''lost'') = - 1 \<and>
   get_game_by_gid (db (after (filter_messages ascii demo_ops (40::int)
       (demo_bot (Some (lit ''new''))) (demo_msg (lit ''b1''))))) 7 = Some (demo_game None 3) \<and>
   valid_move ascii demo_ops (demo_bot (Some (lit ''new''))) (demo_msg (lit ''a1''))
     (demo_game (Some (lit ''new'')) 3) (lit ''won'') (lit ''won'') \<and>
   result demo_ops (lit ''won'') = 1 \<and>
   get_game_by_gid (db (after (filter_messages ascii demo_ops (40::int)
       (demo_bot (Some (lit ''new''))) (demo_msg (lit ''a1''))))) 7 = Some (demo_game None 60)"
  using terminal_move_clears_board
          [of ascii demo_ops "demo_bot (Some (lit ''new''))" "demo_msg (lit ''b1'')"
              "demo_game (Some (lit ''new'')) 3" "lit ''lost''" "lit ''lost''" 40]
        terminal_move_clears_board
          [of ascii demo_ops "demo_bot (Some (lit ''new''))" "demo_msg (lit ''a1'')"
              "demo_game (Some (lit ''new'')) 3" "lit ''won''" "lit ''won''" 40]
  by (simp add: demo_defs ascii_defs valid_move_def)

subsection \<open>The round trip of the serialization\<close>

lemma grid_index_bound:
  assumes "r < h" and "c < w"
  shows "r * w + c < w * (h::nat)"
proof -
  have "r * w + c < r * w + w" using assms(2) by simp
  also have "\<dots> = Suc r * w" by simp
  also have "\<dots> \<le> h * w" using assms(1) by (intro mult_le_mono1) simp
  finally show ?thesis by (simp add: mult.commute)
qed

lemma neighbours_in_grid: "j \<in> set (neighbours w h i) \<Longrightarrow> j < w * h"
  by (auto simp: neighbours_def grid_index_bound)

lemma count_positions:
  "length (filter (\<lambda>i. P (xs ! i)) [0 ..< length xs]) = length (filter P xs)"
proof -
  have "length (filter P xs) = length (filter P (map (\<lambda>i. xs ! i) [0 ..< length xs]))"
    by (simp add: map_nth)
  also have "\<dots> = length (filter (\<lambda>i. P (xs ! i)) [0 ..< length xs])"
    by (simp add: filter_map comp_def)
  finally show ?thesis by simp
qed

text \<open>
  Claim C5. For every board of the data model, the board imported from its exported
  serialization is the board itself: the same dimensions, cell states, mine layout,
  adjacency counts, number of mines and start timestamp. Being equal, the two give the
  same result to every later operation.
\<close>

theorem import_export_round_trip:
  assumes "well_formed b"
  shows "Import (Export b) = Inr b"
proof -
  define n where "n = length (cells b)"
  define mines where "mines = filter (\<lambda>i. isMine (cells b ! i)) [0 ..< n]"
  define revealed where "revealed = map (\<lambda>c. state c = Revealed) (cells b)"
  from assms have len: "n = width b * height b"
    and cnt: "mineCount b = length (filter isMine (cells b))"
    and adj: "\<And>i. i < n \<Longrightarrow> adjacentMineCount (cells b ! i) = mine_neighbours b i"
    by (auto simp: well_formed_def list_all_iff n_def)
  have mem: "j \<in> set mines \<longleftrightarrow> isMine (cells b ! j)" if "j < n" for j
    using that by (simp add: mines_def)
  have nb: "filter (\<lambda>j. j \<in> set mines) (neighbours (width b) (height b) i) =
            filter (\<lambda>j. isMine (cells b ! j)) (neighbours (width b) (height b) i)" for i
  proof (rule filter_cong)
    fix j
    assume "j \<in> set (neighbours (width b) (height b) i)"
    then have "j < n"
      using neighbours_in_grid [of j "width b" "height b" i] len by simp
    then show "(j \<in> set mines) = isMine (cells b ! j)" by (rule mem)
  qed simp
  define mk where "mk = (\<lambda>i. \<lparr>isMine = i \<in> set mines,
        adjacentMineCount = length (filter (\<lambda>j. j \<in> set mines)
                                      (neighbours (width b) (height b) i)),
        state = (if revealed ! i then Revealed else Hidden)\<rparr>)"
  have cell: "mk i = cells b ! i" if "i < n" for i
  proof -
    have "(if revealed ! i then Revealed else Hidden) = state (cells b ! i)"
      using that by (cases "state (cells b ! i)") (simp_all add: revealed_def n_def)
    then show ?thesis
      using that by (simp add: mk_def nb mem adj mine_neighbours_def)
  qed
  have cells: "map mk [0 ..< n] = cells b"
  proof (rule nth_equalityI)
    show "length (map mk [0 ..< n]) = length (cells b)" by (simp add: n_def)
  next
    fix i
    assume "i < length (map mk [0 ..< n])"
    then have "i < n" by simp
    then show "map mk [0 ..< n] ! i = cells b ! i" by (simp add: cell)
  qed
  have ok: "list_all (\<lambda>i. i < n) mines" "distinct mines"
    by (auto simp: list_all_iff mines_def)
  have count: "length mines = mineCount b"
    unfolding mines_def n_def by (simp add: cnt count_positions)
  have ex: "Export b = \<lparr>s_width = width b, s_height = height b, s_mines = mines,
      s_revealed = revealed, s_startedAt = startedAt b\<rparr>"
    by (simp add: Export_def mines_def revealed_def n_def)
  have "Import (Export b) =
      Inr \<lparr>width = width b, height = height b, cells = cells b,
           mineCount = mineCount b, startedAt = startedAt b\<rparr>"
    unfolding ex Import_def
    using ok cells count by (simp add: len [symmetric] mk_def revealed_def n_def)
  then show ?thesis by simp
qed

lemma well_formed_corner_board: "well_formed corner_board"
  by code_simp

theorem import_export_round_trip_witness:
  "well_formed corner_board \<and> Import (Export corner_board) = Inr corner_board"
  using import_export_round_trip [of corner_board] well_formed_corner_board by simp

subsection \<open>The reply to a valid move\<close>

text \<open>
  Claim C6 as stated does not hold of a loss. On the instance the move \<open>b1\<close> loses the
  game, and the reply is the death notice followed by the full-disclosure render: it has
  no score line, and indeed no digit at all.
\<close>

theorem loss_reply_has_no_score:
  "result demo_ops (lit ''lost'') = - 1 \<and>
   replies (filter_messages ascii demo_ops (40::int)
       (demo_bot (Some (lit ''new''))) (demo_msg (lit ''b1''))) =
     [\<lparr>r_text = died_text @ play_again (lit ''[*]''), r_chat = None\<rparr>] \<and>
   \<not> list_ex ascii_digit (died_text @ play_again (lit ''[*]''))"
proof -
  have "valid_move ascii demo_ops (demo_bot (Some (lit ''new''))) (demo_msg (lit ''b1''))
     (demo_game (Some (lit ''new'')) 3) (lit ''lost'') (lit ''lost'')"
    by (simp add: demo_defs ascii_defs valid_move_def)
  from filter_lost [OF this, of 40]
  have "replies (filter_messages ascii demo_ops (40::int)
       (demo_bot (Some (lit ''new''))) (demo_msg (lit ''b1''))) =
     [\<lparr>r_text = died_text @ play_again (lit ''[*]''), r_chat = None\<rparr>]"
    by (simp add: demo_ops_def lit_def)
  moreover have "\<not> list_ex ascii_digit (died_text @ play_again (lit ''[*]''))"
    by (simp add: died_text_def play_again_def skull_def bar_chart_def play_button_def
        NL_def lit_def ascii_digit_def)
  moreover have "result demo_ops (lit ''lost'') = - 1"
    by (simp add: demo_ops_def lit_def)
  ultimately show ?thesis by blast
qed

text \<open>
  Claim C6, amended. A valid move has exactly one reply, in the chat of the message.
  When the game is won it is the end-of-game summary with the score line (\<open>win_text\<close>,
  holding \<open>score_line\<close> of the final score) and the full-disclosure render; when the
  game is lost it is the death notice and the full-disclosure render, with no score
  line; otherwise it is the render of the board as currently known.
\<close>

theorem reply_after_valid_move:
  assumes "valid_move U ops st m g ser' c"
  shows "replies (filter_messages U ops now st m) =
     [\<lparr>r_text =
         (if result ops c = 1 then
            win_text (if get_score ops c now \<le> score g then score g + 1
                      else get_score ops c now) @ play_again (reveal ops c 1)
          else if result ops c = - 1 then died_text @ play_again (reveal ops c (- 1))
          else str ops c),
       r_chat = None\<rparr>]"
  using filter_valid_move [OF assms, of now] by (simp add: answer_def)

theorem reply_after_valid_move_witness:
  "valid_move ascii demo_ops (demo_bot (Some (lit ''new''))) (demo_msg (lit ''c1''))
     (demo_game (Some (lit ''new'')) 3) (lit ''newc1'') (lit ''newc1'') \<and>
   replies (filter_messages ascii demo_ops (40::int)
       (demo_bot (Some (lit ''new''))) (demo_msg (lit ''c1''))) =
     [\<lparr>r_text = lit ''[?]'', r_chat = None\<rparr>]"
  using reply_after_valid_move
          [of ascii demo_ops "demo_bot (Some (lit ''new''))" "demo_msg (lit ''c1'')"
              "demo_game (Some (lit ''new'')) 3" "lit ''newc1''" "lit ''newc1''" 40]
  by (simp add: demo_defs ascii_defs valid_move_def)

subsection \<open>Requests without an active board\<close>

text \<open>
  Claim C7 as stated does not hold of a move. On the instance with the board of the game
  cleared, the candidate move \<open>a1\<close> sent in the chat of the game changes nothing and
  gets no reply at all: no prompt to start a game.
\<close>

theorem move_without_board_gets_no_prompt:
  "get_game_by_gid (db (demo_bot None)) 7 = Some (demo_game None 3) \<and>
   filter_messages ascii demo_ops (40::int) (demo_bot None) (demo_msg (lit ''a1'')) =
     \<lparr>after = demo_bot None, replies = [], raised = None\<rparr>"
  by (simp add: filter_messages_def ignored_def demo_defs ascii_defs)

text \<open>
  The move filter looks up the game of the chat the message is in and never reads the
  sender. On the instance, a sender who has no game record sends \<open>c1\<close> in chat 7,
  whose game has a board: the move is applied to that board and answered. So what the
  filter does without an active board is a statement about the chat's game, not about
  the sender's.
\<close>

lemma move_filter_reads_the_chat:
  "get_game_by_addr (db (demo_bot (Some (lit ''new''))))
     (sender_addr ((stranger_msg (lit ''c1''))\<lparr>m_chat := 7\<rparr>)) = None \<and>
   filter_messages ascii demo_ops (40::int) (demo_bot (Some (lit ''new'')))
       ((stranger_msg (lit ''c1''))\<lparr>m_chat := 7\<rparr>) =
     \<lparr>after = demo_bot (Some (lit ''newc1'')),
      replies = [\<lparr>r_text = lit ''[?]'', r_chat = None\<rparr>], raised = None\<rparr>"
proof -
  have "valid_move ascii demo_ops (demo_bot (Some (lit ''new'')))
     ((stranger_msg (lit ''c1''))\<lparr>m_chat := 7\<rparr>)
     (demo_game (Some (lit ''new'')) 3) (lit ''newc1'') (lit ''newc1'')"
    by (simp add: demo_defs ascii_defs valid_move_def stranger_msg_def)
  from filter_valid_move [OF this, of 40] show ?thesis
    by (simp add: demo_defs stranger_msg_def answer_def set_board_def get_game_by_addr_def)
qed

text \<open>
  Claim C7, amended. A move sent in a chat that has no game record, or whose game record
  has a null board, whoever the sender is, is ignored by the move filter: no game state
  is modified and there is no reply. A repeat request of a player who has no game
  record, or the game record of whose group chat has no board (null or empty), modifies
  no game state and is answered with the prompt to start a game.
\<close>

theorem requests_without_board:
  "((get_game_by_gid (db st) (m_chat m) = None \<or>
     (\<exists>g. get_game_by_gid (db st) (m_chat m) = Some g \<and> board g = None)) \<longrightarrow>
      filter_messages U ops now st m = \<lparr>after = st, replies = [], raised = None\<rparr>) \<and>
   (get_game_by_addr (db st) (sender_addr m) = None \<longrightarrow>
      mines_repeat ops now st m =
        \<lparr>after = st, replies = [\<lparr>r_text = no_active_game, r_chat = None\<rparr>], raised = None\<rparr>) \<and>
   (\<forall>g0 g. get_game_by_addr (db st) (sender_addr m) = Some g0 \<and>
       get_game_by_gid (db st) (gid g0) = Some g \<and> falsy (board g) \<longrightarrow>
      mines_repeat ops now st m =
        \<lparr>after = st, replies = [\<lparr>r_text = no_active_game, r_chat = Some (gid g0)\<rparr>],
         raised = None\<rparr>)"
proof (intro conjI impI allI)
  assume "get_game_by_gid (db st) (m_chat m) = None \<or>
     (\<exists>g. get_game_by_gid (db st) (m_chat m) = Some g \<and> board g = None)"
  then show "filter_messages U ops now st m = \<lparr>after = st, replies = [], raised = None\<rparr>"
    unfolding filter_messages_def ignored_def by auto
next
  assume "get_game_by_addr (db st) (sender_addr m) = None"
  then show "mines_repeat ops now st m =
        \<lparr>after = st, replies = [\<lparr>r_text = no_active_game, r_chat = None\<rparr>], raised = None\<rparr>"
    unfolding mines_repeat_def by simp
next
  fix g0 g
  assume h: "get_game_by_addr (db st) (sender_addr m) = Some g0 \<and>
       get_game_by_gid (db st) (gid g0) = Some g \<and> falsy (board g)"
  then have "run_turn ops now (db st) (gid g0) = (Inr no_active_game, db st)"
    unfolding run_turn_def falsy_def by (auto split: option.splits)
  with h show "mines_repeat ops now st m =
        \<lparr>after = st, replies = [\<lparr>r_text = no_active_game, r_chat = Some (gid g0)\<rparr>],
         raised = None\<rparr>"
    unfolding mines_repeat_def answer_def by simp
qed

theorem requests_without_board_witness:
  "get_game_by_gid (db (demo_bot None)) 7 = Some (demo_game None 3) \<and>
   filter_messages ascii demo_ops (40::int) (demo_bot None) (demo_msg (lit ''a1'')) =
     \<lparr>after = demo_bot None, replies = [], raised = None\<rparr> \<and>
   get_game_by_addr (db (demo_bot None)) (lit ''sam@example.org'') = None \<and>
   mines_repeat demo_ops (40::int) (demo_bot None) (stranger_msg (lit ''/mines_repeat'')) =
     \<lparr>after = demo_bot None, replies = [\<lparr>r_text = no_active_game, r_chat = None\<rparr>],
      raised = None\<rparr> \<and>
   get_game_by_addr (db (demo_bot None)) player = Some (demo_game None 3) \<and>
   mines_repeat demo_ops (40::int) (demo_bot None) (demo_msg (lit ''/mines_repeat'')) =
     \<lparr>after = demo_bot None, replies = [\<lparr>r_text = no_active_game, r_chat = Some 7\<rparr>],
      raised = None\<rparr>"
  using requests_without_board
          [of "demo_bot None" "demo_msg (lit ''a1'')" ascii demo_ops 40]
        requests_without_board
          [of "demo_bot None" "stranger_msg (lit ''/mines_repeat'')" ascii demo_ops 40]
        requests_without_board
          [of "demo_bot None" "demo_msg (lit ''/mines_repeat'')" ascii demo_ops 40]
  by (simp add: demo_defs ascii_defs stranger_msg_def get_game_by_addr_def falsy_def)

subsection \<open>The move parser\<close>

text \<open>No character is both a letter and a digit.\<close>

lemma letter_not_digit: "letter_index ch = Some c \<Longrightarrow> digit_value ch = None"
  by (auto simp: letter_index_def digit_value_def split: if_splits)

text \<open>
  Claim C8. For a letter and a digit, the token letter-then-digit and the token
  digit-then-letter parse alike; when the coordinate they address is inside the grid
  both parse to that (row, column) pair, and when it is outside the grid parsing fails
  with \<open>InvalidToken\<close>.
\<close>

theorem parse_either_order:
  assumes "letter_index l = Some col" and "digit_value d = Some k"
  shows "Parse w h origin [l, d] = Parse w h origin [d, l] \<and>
         (origin \<le> k \<and> k - origin < h \<and> col < w \<longrightarrow>
            Parse w h origin [l, d] = Inr (k - origin, col)) \<and>
         (\<not> (origin \<le> k \<and> k - origin < h \<and> col < w) \<longrightarrow>
            Parse w h origin [l, d] = Inl InvalidToken)"
proof -
  have dl: "digit_value l = None"
    using assms(1) by (rule letter_not_digit)
  have ld: "letter_index d = None"
    using assms(2) letter_not_digit [of d] by (cases "letter_index d") auto
  have fwd: "Parse w h origin [l, d] = locate w h origin k col"
    by (simp add: Parse_def assms)
  have bwd: "Parse w h origin [d, l] = locate w h origin k col"
    by (simp add: Parse_def assms dl ld)
  show ?thesis
    unfolding fwd bwd by (simp add: locate_def)
qed

text \<open>
  The specification's scenario on a board of 8 by 8, with rows named from the digit 1:
  \<open>A1\<close> and \<open>1A\<close> parse to the same coordinate, and \<open>A9\<close> fails.
\<close>

theorem parse_either_order_witness:
  "letter_index 65 = Some 0 \<and> digit_value 49 = Some 1 \<and>
   Parse 8 8 1 (lit ''A1'') = Inr (0, 0) \<and> Parse 8 8 1 (lit ''1A'') = Inr (0, 0) \<and>
   digit_value 57 = Some 9 \<and> Parse 8 8 1 (lit ''A9'') = Inl InvalidToken \<and>
   Parse 8 8 1 (lit ''9A'') = Inl InvalidToken"
  using parse_either_order [of 65 0 49 1 8 8 1] parse_either_order [of 65 0 57 9 8 8 1]
  by (auto simp add: lit_def letter_index_def digit_value_def)

subsection \<open>Starting a game without a nick\<close>

text \<open>
  Claim C9. When the sender of \<open>/mines_play\<close> has no nick (none registered, or an
  empty one), the bot is unchanged: no group chat is created, no game record is added
  and no board is stored; the only effect is the reply that asks to set a nick first.
\<close>

theorem play_without_nick:
  assumes "falsy (get_nick (db st) (sender_addr m))"
  shows "mines_play ops now fresh new_gid st m =
     \<lparr>after = st, replies = [\<lparr>r_text = need_nick, r_chat = None\<rparr>], raised = None\<rparr>"
  using assms unfolding mines_play_def by simp

theorem play_without_nick_witness:
  "falsy (get_nick (db (demo_bot None)) (lit ''sam@example.org'')) \<and>
   mines_play demo_ops (40::int) (lit ''new'') 8 (demo_bot None) (stranger_msg (lit ''/mines_play''))
     = \<lparr>after = demo_bot None, replies = [\<lparr>r_text = need_nick, r_chat = None\<rparr>],
        raised = None\<rparr>"
  using play_without_nick
          [of "demo_bot None" "stranger_msg (lit ''/mines_play'')" demo_ops 40 "lit ''new''" 8]
  by (simp add: demo_bot_def demo_game_def player_def lit_def stranger_msg_def
      get_nick_def falsy_def)

subsection \<open>The turn on a game in progress\<close>

text \<open>
  Claim C10. When the board loaded for a chat is neither won nor lost, \<open>_run_turn\<close>
  leaves the storage as it was and returns the render of the board as currently known;
  so \<open>/mines_repeat\<close> of a player whose group chat is that chat leaves the bot, with
  every stored field, unchanged, and replies with that render in the chat.
\<close>

theorem in_progress_turn_writes_nothing:
  assumes "get_game_by_gid (db st) i = Some g" and "board g = Some ser" and "ser \<noteq> []"
    and "Board_of ops ser = Inr b" and "result ops b \<noteq> 1" and "result ops b \<noteq> - 1"
  shows "run_turn ops now (db st) i = (Inr (str ops b), db st) \<and>
     (\<forall>m g0. get_game_by_addr (db st) (sender_addr m) = Some g0 \<and> gid g0 = i \<longrightarrow>
        mines_repeat ops now st m =
          \<lparr>after = st, replies = [\<lparr>r_text = str ops b, r_chat = Some i\<rparr>], raised = None\<rparr>)"
proof -
  have rt: "run_turn ops now (db st) i = (Inr (str ops b), db st)"
    using run_turn_loaded [OF assms(1-4), of now] assms(5,6) by simp
  then show ?thesis
    unfolding mines_repeat_def answer_def by (auto simp: Let_def)
qed

theorem in_progress_turn_writes_nothing_witness:
  "result demo_ops (lit ''new'') = 0 \<and>
   run_turn demo_ops (40::int) (db (demo_bot (Some (lit ''new'')))) 7
     = (Inr (lit ''[?]''), db (demo_bot (Some (lit ''new'')))) \<and>
   mines_repeat demo_ops (40::int) (demo_bot (Some (lit ''new''))) (demo_msg (lit ''/mines_repeat''))
     = \<lparr>after = demo_bot (Some (lit ''new'')),
        replies = [\<lparr>r_text = lit ''[?]'', r_chat = Some 7\<rparr>], raised = None\<rparr>"
  using in_progress_turn_writes_nothing
          [of "demo_bot (Some (lit ''new''))" 7 "demo_game (Some (lit ''new'')) 3"
              "lit ''new''" demo_ops "lit ''new''" 40]
  by (simp add: demo_defs get_game_by_addr_def)

end
